theory Spec2Isabelle
  imports Main "HOL-Library.AList" "HOL-Library.Sublist"
begin

section \<open>Data model of \<open>cache_service.py\<close>\<close>

text \<open>
  Cached payloads are opaque Python objects. A payload is modelled as \<open>'v option\<close>: \<open>None\<close> is
  Python's \<open>None\<close> (which a fetch may return and the cache may hold like any other object),
  \<open>Some v\<close> any other object. Times are the integers \<open>int(time.time() * 1000)\<close>; every function
  that reads the clock takes the value it reads as an argument.
\<close>

record 'v CacheEntry =
  data :: "'v option"
  timestamp :: int
  expires_at :: int

text \<open>\<open>CacheEntry.__init__(data, ttl)\<close>, with the clock reading \<open>now\<close>.\<close>

definition CacheEntry_init :: "int \<Rightarrow> 'v option \<Rightarrow> int \<Rightarrow> 'v CacheEntry" where
  "CacheEntry_init now d ttl_ms = \<lparr>data = d, timestamp = now, expires_at = now + ttl_ms\<rparr>"

definition is_expired :: "int \<Rightarrow> 'v CacheEntry \<Rightarrow> bool" where
  "is_expired now e = (now > expires_at e)"

text \<open>The dictionary \<open>{"data", "timestamp", "expiresAt"}\<close> that \<open>to_dict\<close> builds.\<close>

record 'v entry_dict =
  d_data :: "'v option"
  d_timestamp :: int
  d_expiresAt :: int

definition to_dict :: "'v CacheEntry \<Rightarrow> 'v entry_dict" where
  "to_dict e = \<lparr>d_data = data e, d_timestamp = timestamp e, d_expiresAt = expires_at e\<rparr>"

text \<open>
  \<open>from_dict\<close> builds an entry with ttl 0 (its constructor reads the clock, here \<open>now\<close>) and
  then overwrites both time fields.
\<close>

definition from_dict :: "int \<Rightarrow> 'v entry_dict \<Rightarrow> 'v CacheEntry" where
  "from_dict now d =
     (let entry = CacheEntry_init now (d_data d) 0
      in entry\<lparr>timestamp := d_timestamp d, expires_at := d_expiresAt d\<rparr>)"

text \<open>
  The JSON document of the cache file. Payloads are taken to survive \<open>json.dump\<close> and
  \<open>json.load\<close> unchanged (they are decoded JSON responses).
\<close>

record 'v snapshot =
  snap_timestamp :: int
  requestTimestamps :: "int list"
  entries :: "(string \<times> 'v entry_dict) list"

text \<open>
  The service object. A Python \<open>dict\<close> is an association list in insertion order with
  distinct keys: \<open>d[k] = v\<close> is \<open>AList.update\<close> (an existing key keeps its place, a new one
  goes last), \<open>del d[k]\<close> is \<open>AList.delete\<close>, \<open>d.get(k)\<close> is \<open>map_of\<close>. The field
  \<open>cache_file\<close> is the content of the file at \<open>cache_path\<close>: \<open>None\<close> when the file is missing
  or is not valid JSON.
\<close>

record 'v service =
  minute_request_limit :: int
  persistent_cache_enabled :: bool
  cache :: "(string \<times> 'v CacheEntry) list"
  pending_requests :: "(string \<times> bool) list"
  request_timestamps :: "int list"
  cache_file :: "'v snapshot option"

definition window_size_ms :: int where
  "window_size_ms = 60 * 1000"

text \<open>\<open>key in d\<close> for a dict \<open>d\<close>.\<close>

definition dict_in :: "'k \<Rightarrow> ('k \<times> 'a) list \<Rightarrow> bool" where
  "dict_in k d = (k \<in> set (map fst d))"

section \<open>The call ledger\<close>

definition cleanup_expired_timestamps :: "int \<Rightarrow> 'v service \<Rightarrow> 'v service" where
  "cleanup_expired_timestamps now s =
     s\<lparr>request_timestamps := filter (\<lambda>ts. now - ts < window_size_ms) (request_timestamps s)\<rparr>"

definition has_reached_rate_limit :: "int \<Rightarrow> 'v service \<Rightarrow> bool \<times> 'v service" where
  "has_reached_rate_limit now s =
     (let s' = cleanup_expired_timestamps now s
      in (int (length (request_timestamps s')) \<ge> minute_request_limit s', s'))"

definition record_request :: "int \<Rightarrow> 'v service \<Rightarrow> 'v service" where
  "record_request now s = s\<lparr>request_timestamps := request_timestamps s @ [now]\<rparr>"

text \<open>
  \<open>_get_wait_time_ms\<close> returns before it reads the clock when the ledger is empty; otherwise
  it sorts the ledger and takes element 0.
\<close>

definition get_wait_time_ms :: "int \<Rightarrow> 'v service \<Rightarrow> int" where
  "get_wait_time_ms now s =
     (if request_timestamps s = [] then 0
      else
        let sorted_timestamps = sort (request_timestamps s);
            oldest_request = hd sorted_timestamps;
            time_until_window_frees = (oldest_request + window_size_ms) - now
        in max 0 time_until_window_frees)"

section \<open>The snapshot file\<close>

definition persist_cache :: "int \<Rightarrow> 'v service \<Rightarrow> 'v service" where
  "persist_cache now s =
     (if \<not> persistent_cache_enabled s then s
      else s\<lparr>cache_file := Some \<lparr>snap_timestamp = now,
                                   requestTimestamps = request_timestamps s,
                                   entries = map (\<lambda>(key, entry). (key, to_dict entry)) (cache s)\<rparr>\<rparr>)"

text \<open>
  The loop of \<open>_initialize_cache\<close> over the file's entries. Each entry reads the clock in
  \<open>from_dict\<close> and again in \<open>is_expired\<close>; \<open>clk i\<close> is what the \<open>i\<close>-th entry reads.
\<close>

fun restore_entries ::
  "(nat \<Rightarrow> int) \<Rightarrow> nat \<Rightarrow> (string \<times> 'v entry_dict) list \<Rightarrow> (string \<times> 'v CacheEntry) list
     \<Rightarrow> (string \<times> 'v CacheEntry) list" where
  "restore_entries clk i [] c = c"
| "restore_entries clk i ((key, val) # rest) c =
     (let cache_entry = from_dict (clk i) val
      in restore_entries clk (Suc i) rest
           (if \<not> is_expired (clk i) cache_entry then AList.update key cache_entry c else c))"

definition initialize_cache :: "int \<Rightarrow> (nat \<Rightarrow> int) \<Rightarrow> 'v service \<Rightarrow> 'v service" where
  "initialize_cache now clk s =
     (if \<not> persistent_cache_enabled s then s
      else
        (case cache_file s of
           None \<Rightarrow> s
         | Some cache_data \<Rightarrow>
             s\<lparr>request_timestamps :=
                 filter (\<lambda>ts. now - ts < window_size_ms) (requestTimestamps cache_data),
               cache := restore_entries clk 0 (entries cache_data) (cache s)\<rparr>))"

text \<open>
  \<open>SyncTaoStatsCacheService.__init__\<close>: the options \<open>minute_request_limit\<close> and
  \<open>persistent_cache_enabled\<close>, the file found at \<open>cache_path\<close>, and the clock.
\<close>

definition service_init ::
  "int \<Rightarrow> bool \<Rightarrow> 'v snapshot option \<Rightarrow> int \<Rightarrow> (nat \<Rightarrow> int) \<Rightarrow> 'v service" where
  "service_init limit enabled file now clk =
     initialize_cache now clk
       \<lparr>minute_request_limit = limit, persistent_cache_enabled = enabled, cache = [],
        pending_requests = [], request_timestamps = [], cache_file = file\<rparr>"

text \<open>A clock that stands at \<open>now\<close> for every entry of the file.\<close>

definition steady :: "int \<Rightarrow> nat \<Rightarrow> int" where
  "steady now i = now"

section \<open>Get-or-fetch\<close>

text \<open>
  The options dictionary of \<open>with_cache\<close>, read with \<open>options.get(name, default)\<close>;
  \<open>default_options\<close> is the empty dictionary.
\<close>

record options =
  ttl :: int
  force_refresh :: bool
  fallback_to_cache :: bool
  critical :: bool
  fail_silently :: bool

definition default_options :: options where
  "default_options =
     \<lparr>ttl = 3600000, force_refresh = False, fallback_to_cache = True, critical = False,
      fail_silently = False\<rparr>"

text \<open>
  One call of \<open>with_cache\<close> reads the clock at up to six places; each reading is a field
  here. \<open>clock_at now\<close> is a call during which the clock stands at \<open>now\<close>.
\<close>

record clock =
  t_is_expired :: int
  t_cleanup :: int
  t_wait :: int
  t_record :: int
  t_entry :: int
  t_persist :: int

definition clock_at :: "int \<Rightarrow> clock" where
  "clock_at now =
     \<lparr>t_is_expired = now, t_cleanup = now, t_wait = now, t_record = now, t_entry = now,
      t_persist = now\<rparr>"

text \<open>
  What a call raises: the \<open>Exception(message)\<close> of the rate limit branch, whose message
  interpolates \<open>len(self.request_timestamps)\<close>, \<open>self.minute_request_limit\<close> and
  \<open>wait_time // 1000\<close> (whole seconds), or whatever exception the fetch function raised.
\<close>

datatype 'x py_exception =
  RateLimitReached nat int int
  | FetchRaised 'x

datatype ('v, 'x) outcome =
  Return "'v option"
  | Raise "'x py_exception"

text \<open>
  The fetch function is opaque. It acts on the world outside the service (type \<open>'w\<close>) and
  either returns an object (\<open>Inr\<close>) or raises an \<open>Exception\<close> (\<open>Inl\<close>); it does not call
  back into the service. \<open>succeed_with\<close> and \<open>fail_with\<close> are the two constant ones.
\<close>

type_synonym ('v, 'x, 'w) fetch_fn = "'w \<Rightarrow> ('x + 'v option) \<times> 'w"

definition succeed_with :: "'v option \<Rightarrow> ('v, 'x, 'w) fetch_fn" where
  "succeed_with v w = (Inr v, w)"

definition fail_with :: "'x \<Rightarrow> ('v, 'x, 'w) fetch_fn" where
  "fail_with err w = (Inl err, w)"

text \<open>The \<open>finally\<close> block of \<open>with_cache\<close>.\<close>

definition clear_pending :: "string \<Rightarrow> 'v service \<Rightarrow> 'v service" where
  "clear_pending key s =
     (if dict_in key (pending_requests s)
      then s\<lparr>pending_requests := AList.delete key (pending_requests s)\<rparr>
      else s)"

text \<open>
  \<open>SyncTaoStatsCacheService.with_cache\<close>, in three parts. Each returns what the call returns
  or raises, the service afterwards and the outside world afterwards. The outer \<open>except\<close>
  only logs and re-raises.

  The fetch step: mark the key pending, record the request, call the fetch function; on
  success store and persist the result, on an exception fall back to \<open>cached_entry\<close> when
  there is one and \<open>fallback_to_cache\<close> is set, else re-raise; at the end remove the mark.
\<close>

definition fetch_step ::
  "clock \<Rightarrow> string \<Rightarrow> ('v, 'x, 'w) fetch_fn \<Rightarrow> options \<Rightarrow> 'v CacheEntry option \<Rightarrow> 'v service
     \<Rightarrow> 'w \<Rightarrow> ('v, 'x) outcome \<times> 'v service \<times> 'w" where
  "fetch_step clk key fetch_fn opts cached_entry s1 w =
     (let s2 = s1\<lparr>pending_requests := AList.update key True (pending_requests s1)\<rparr>;
          s3 = record_request (t_record clk) s2;
          (res, w') = fetch_fn w
      in
        (case res of
           Inr result \<Rightarrow>
             let s4 = s3\<lparr>cache :=
                        AList.update key (CacheEntry_init (t_entry clk) result (ttl opts))
                          (cache s3)\<rparr>;
                 s5 = persist_cache (t_persist clk) s4
             in (Return result, clear_pending key s5, w')
         | Inl error \<Rightarrow>
             (case (if fallback_to_cache opts then cached_entry else None) of
                Some e \<Rightarrow> (Return (data e), clear_pending key s3, w')
              | None \<Rightarrow> (Raise (FetchRaised error), clear_pending key s3, w'))))"

text \<open>
  The rate limit check: when the purged ledger is at the limit and the call is not critical,
  answer from \<open>cached_entry\<close> (expired or not) if there is one and \<open>fallback_to_cache\<close> is
  set, else return \<open>None\<close> or raise as \<open>fail_silently\<close> says; otherwise do the fetch step.
\<close>

definition admission_step ::
  "clock \<Rightarrow> string \<Rightarrow> ('v, 'x, 'w) fetch_fn \<Rightarrow> options \<Rightarrow> 'v CacheEntry option \<Rightarrow> 'v service
     \<Rightarrow> 'w \<Rightarrow> ('v, 'x) outcome \<times> 'v service \<times> 'w" where
  "admission_step clk key fetch_fn opts cached_entry s w =
     (let (limited, s1) = has_reached_rate_limit (t_cleanup clk) s in
      if limited \<and> \<not> critical opts then
        (case (if fallback_to_cache opts then cached_entry else None) of
           Some e \<Rightarrow> (Return (data e), s1, w)
         | None \<Rightarrow>
             let wait_time = get_wait_time_ms (t_wait clk) s1 in
             if fail_silently opts then (Return None, s1, w)
             else
               (Raise (RateLimitReached (length (request_timestamps s1))
                  (minute_request_limit s1) (wait_time div 1000)), s1, w))
      else fetch_step clk key fetch_fn opts cached_entry s1 w)"

text \<open>
  The whole call: a pending key (without \<open>force_refresh\<close>) returns \<open>None\<close> at once; a
  cached entry that is not expired (without \<open>force_refresh\<close>) is returned; everything else
  goes to the rate limit check with \<open>cached_entry = self.cache.get(key)\<close>.
\<close>

definition with_cache ::
  "clock \<Rightarrow> string \<Rightarrow> ('v, 'x, 'w) fetch_fn \<Rightarrow> options \<Rightarrow> 'v service \<Rightarrow> 'w
     \<Rightarrow> ('v, 'x) outcome \<times> 'v service \<times> 'w" where
  "with_cache clk key fetch_fn opts s w =
     (if dict_in key (pending_requests s) \<and> \<not> force_refresh opts then (Return None, s, w)
      else
        let cached_entry = map_of (cache s) key in
        (case cached_entry of
           Some e \<Rightarrow>
             if \<not> force_refresh opts \<and> \<not> is_expired (t_is_expired clk) e
             then (Return (data e), s, w)
             else admission_step clk key fetch_fn opts cached_entry s w
         | None \<Rightarrow> admission_step clk key fetch_fn opts cached_entry s w))"

section \<open>Invalidation\<close>

text \<open>
  \<open>invalidate\<close> is annotated \<open>-> None\<close> and has no \<open>return\<close>: the object it returns is
  \<open>None\<close>. Its result type is that of an optional boolean so that the returned object can be
  compared with \<open>True\<close> and \<open>False\<close>.
\<close>

definition invalidate :: "string \<Rightarrow> 'v service \<Rightarrow> bool option \<times> 'v service" where
  "invalidate key s =
     (None,
      if dict_in key (cache s) then s\<lparr>cache := AList.delete key (cache s)\<rparr> else s)"

text \<open>
  The loop of \<open>invalidate_by_prefix\<close> over \<open>list(self.cache.keys())\<close>, carrying the dict and
  the count; \<open>key.startswith(prefix)\<close> is \<open>prefix\<close> on strings.
\<close>

fun invalidate_loop ::
  "string \<Rightarrow> string list \<Rightarrow> (string \<times> 'v CacheEntry) list \<Rightarrow> nat
     \<Rightarrow> (string \<times> 'v CacheEntry) list \<times> nat" where
  "invalidate_loop p [] c count = (c, count)"
| "invalidate_loop p (key # keys) c count =
     (if prefix p key then invalidate_loop p keys (AList.delete key c) (count + 1)
      else invalidate_loop p keys c count)"

definition invalidate_by_prefix :: "string \<Rightarrow> 'v service \<Rightarrow> nat \<times> 'v service" where
  "invalidate_by_prefix p s =
     (let (c, count) = invalidate_loop p (map fst (cache s)) (cache s) 0
      in (count, s\<lparr>cache := c\<rparr>))"

definition clear :: "'v service \<Rightarrow> 'v service" where
  "clear s = s\<lparr>cache := []\<rparr>"

section \<open>Auxiliary facts\<close>

lemma hd_sort_Min:
  fixes xs :: "int list"
  assumes "xs \<noteq> []"
  shows "hd (sort xs) = Min (set xs)"
proof -
  have "sort xs \<noteq> []"
    using assms by (metis length_0_conv length_sort)
  then obtain y ys where ys: "sort xs = y # ys"
    by (cases "sort xs") auto
  have "sorted (y # ys)"
    using sorted_sort [of xs] ys by simp
  then have "\<forall>z \<in> set (y # ys). y \<le> z"
    by auto
  moreover have "set (y # ys) = set xs"
    using ys by (metis set_sort)
  ultimately have "Min (set xs) = y"
    by (intro Min_eqI) auto
  then show ?thesis
    using ys by simp
qed

lemma from_dict_to_dict: "from_dict now (to_dict e) = e"
  by (simp add: from_dict_def to_dict_def CacheEntry_init_def)

lemma update_fresh: "k \<notin> set (map fst c) \<Longrightarrow> AList.update k v c = c @ [(k, v)]"
  by (induction c) auto

lemma restore_entries_steady:
  assumes "distinct (map fst (c @ xs))"
  shows "restore_entries (steady now) i (map (\<lambda>(key, entry). (key, to_dict entry)) xs) c =
         c @ filter (\<lambda>(key, entry). \<not> is_expired now entry) xs"
  using assms
proof (induction xs arbitrary: c i)
  case Nil
  then show ?case by simp
next
  case (Cons x xs)
  obtain k e where x: "x = (k, e)"
    by (cases x)
  have fresh: "k \<notin> set (map fst c)"
    using Cons.prems x by auto
  show ?case
  proof (cases "is_expired now e")
    case True
    have "distinct (map fst (c @ xs))"
      using Cons.prems x by auto
    from Cons.IH [OF this] True show ?thesis
      by (simp add: x from_dict_to_dict steady_def)
  next
    case False
    have "distinct (map fst ((c @ [(k, e)]) @ xs))"
      using Cons.prems x by auto
    from Cons.IH [OF this] False show ?thesis
      by (simp add: x from_dict_to_dict steady_def update_fresh [OF fresh])
  qed
qed

lemma invalidate_loop_filter:
  "invalidate_loop p ks c n =
     (filter (\<lambda>(key, entry). \<not> (key \<in> set ks \<and> prefix p key)) c,
      n + length (filter (prefix p) ks))"
proof (induction ks arbitrary: c n)
  case Nil
  then show ?case by simp
next
  case (Cons k ks)
  have del: "AList.delete k c = filter (\<lambda>(key, entry). key \<noteq> k) c"
    by (simp add: AList.delete_eq case_prod_unfold) metis
  show ?case
    by (auto simp add: Cons.IH del case_prod_unfold intro!: filter_cong)
qed

lemma map_of_filter_keys:
  "map_of (filter (\<lambda>(key, entry). P key) c) k = (if P k then map_of c k else None)"
  by (induction c) auto

subsection \<open>The three parts of \<open>with_cache\<close>\<close>

lemma with_cache_to_admission:
  assumes "\<not> (dict_in key (pending_requests s) \<and> \<not> force_refresh opts)"
    and "force_refresh opts \<or>
         (case map_of (cache s) key of None \<Rightarrow> True
          | Some e \<Rightarrow> is_expired (t_is_expired clk) e)"
  shows "with_cache clk key fetch_fn opts s w =
         admission_step clk key fetch_fn opts (map_of (cache s) key) s w"
  using assms by (auto simp add: with_cache_def split: option.splits)

lemma admission_limited:
  assumes "fst (has_reached_rate_limit (t_cleanup clk) s)" and "\<not> critical opts"
  shows "admission_step clk key fetch_fn opts ce s w =
     (case (if fallback_to_cache opts then ce else None) of
        Some e \<Rightarrow> Return (data e)
      | None \<Rightarrow>
          if fail_silently opts then Return None
          else Raise (RateLimitReached
                 (length (request_timestamps (cleanup_expired_timestamps (t_cleanup clk) s)))
                 (minute_request_limit s)
                 (get_wait_time_ms (t_wait clk) (cleanup_expired_timestamps (t_cleanup clk) s)
                    div 1000)),
      cleanup_expired_timestamps (t_cleanup clk) s, w)"
  using assms
  by (simp add: admission_step_def has_reached_rate_limit_def Let_def
      cleanup_expired_timestamps_def split: option.splits)

lemma admission_fetch:
  assumes "\<not> (fst (has_reached_rate_limit (t_cleanup clk) s) \<and> \<not> critical opts)"
  shows "admission_step clk key fetch_fn opts ce s w =
         fetch_step clk key fetch_fn opts ce (cleanup_expired_timestamps (t_cleanup clk) s) w"
  using assms
  by (auto simp add: admission_step_def has_reached_rate_limit_def Let_def)

lemma fetch_step_failed:
  assumes "fetch_fn w = (Inl err, w')"
  shows "fetch_step clk key fetch_fn opts ce s w =
     (case (if fallback_to_cache opts then ce else None) of
        Some e \<Rightarrow> Return (data e)
      | None \<Rightarrow> Raise (FetchRaised err),
      s\<lparr>pending_requests := AList.delete key (pending_requests s),
        request_timestamps := request_timestamps s @ [t_record clk]\<rparr>, w')"
  using assms
  by (simp add: fetch_step_def Let_def record_request_def clear_pending_def dict_in_def
      AList.dom_update AList.delete_update_same split: option.splits)

lemma reaches_fetch_failed:
  assumes "\<not> (dict_in key (pending_requests s) \<and> \<not> force_refresh opts)"
    and "force_refresh opts \<or>
         (case map_of (cache s) key of None \<Rightarrow> True
          | Some e \<Rightarrow> is_expired (t_is_expired clk) e)"
    and "\<not> (fst (has_reached_rate_limit (t_cleanup clk) s) \<and> \<not> critical opts)"
    and "fetch_fn w = (Inl err, w')"
  shows "with_cache clk key fetch_fn opts s w =
     (case (if fallback_to_cache opts then map_of (cache s) key else None) of
        Some e \<Rightarrow> Return (data e)
      | None \<Rightarrow> Raise (FetchRaised err),
      s\<lparr>pending_requests := AList.delete key (pending_requests s),
        request_timestamps :=
          filter (\<lambda>ts. t_cleanup clk - ts < window_size_ms) (request_timestamps s)
            @ [t_record clk]\<rparr>, w')"
proof -
  have a: "with_cache clk key fetch_fn opts s w =
           admission_step clk key fetch_fn opts (map_of (cache s) key) s w"
    by (rule with_cache_to_admission [OF assms(1,2)])
  have b: "admission_step clk key fetch_fn opts (map_of (cache s) key) s w =
           fetch_step clk key fetch_fn opts (map_of (cache s) key)
             (cleanup_expired_timestamps (t_cleanup clk) s) w"
    by (rule admission_fetch [OF assms(3)])
  show ?thesis
    unfolding a b fetch_step_failed [where fetch_fn = fetch_fn and w = w, OF assms(4)]
    by (simp add: cleanup_expired_timestamps_def)
qed

subsection \<open>What every call keeps\<close>

text \<open>
  A call that starts with an empty pending table ends with an empty pending table: between
  two calls of the synchronous service no key is pending. The keys of the cache stay
  distinct.
\<close>

lemma fetch_step_pending_empty:
  "pending_requests s = [] \<Longrightarrow>
   pending_requests (fst (snd (fetch_step clk key fetch_fn opts ce s w))) = []"
  by (simp add: fetch_step_def Let_def record_request_def clear_pending_def dict_in_def
      persist_cache_def split: prod.splits sum.splits option.splits)

lemma admission_step_pending_empty:
  "pending_requests s = [] \<Longrightarrow>
   pending_requests (fst (snd (admission_step clk key fetch_fn opts ce s w))) = []"
  by (simp add: admission_step_def has_reached_rate_limit_def Let_def
      cleanup_expired_timestamps_def fetch_step_pending_empty split: option.splits)

lemma with_cache_pending_empty:
  "pending_requests s = [] \<Longrightarrow>
   pending_requests (fst (snd (with_cache clk key fetch_fn opts s w))) = []"
  by (simp add: with_cache_def Let_def admission_step_pending_empty split: option.splits)

lemma fetch_step_keys_distinct:
  "distinct (map fst (cache s)) \<Longrightarrow>
   distinct (map fst (cache (fst (snd (fetch_step clk key fetch_fn opts ce s w)))))"
  by (simp add: fetch_step_def Let_def record_request_def clear_pending_def dict_in_def
      persist_cache_def AList.distinct_update split: prod.splits sum.splits option.splits)

lemma admission_step_keys_distinct:
  "distinct (map fst (cache s)) \<Longrightarrow>
   distinct (map fst (cache (fst (snd (admission_step clk key fetch_fn opts ce s w)))))"
  by (simp add: admission_step_def has_reached_rate_limit_def Let_def
      cleanup_expired_timestamps_def fetch_step_keys_distinct split: option.splits)

lemma with_cache_keys_distinct:
  "distinct (map fst (cache s)) \<Longrightarrow>
   distinct (map fst (cache (fst (snd (with_cache clk key fetch_fn opts s w)))))"
  by (simp add: with_cache_def Let_def admission_step_keys_distinct split: option.splits)

text \<open>Construction and the invalidation methods keep both properties too.\<close>

lemma restore_entries_keys_distinct:
  "distinct (map fst c) \<Longrightarrow> distinct (map fst (restore_entries clk i xs c))"
proof (induction xs arbitrary: c i)
  case Nil
  then show ?case by simp
next
  case (Cons x xs)
  obtain k v where x: "x = (k, v)"
    by (cases x)
  show ?case
    using Cons.prems by (simp add: x Let_def Cons.IH AList.distinct_update)
qed

lemma service_init_invariant:
  "pending_requests (service_init limit enabled file now clk) = []
   \<and> distinct (map fst (cache (service_init limit enabled file now clk)))"
  by (simp add: service_init_def initialize_cache_def restore_entries_keys_distinct
      split: option.splits)

lemma invalidate_invariant:
  "pending_requests (snd (invalidate key s)) = pending_requests s
   \<and> (distinct (map fst (cache s)) \<longrightarrow> distinct (map fst (cache (snd (invalidate key s)))))"
  by (simp add: invalidate_def AList.distinct_delete)

lemma invalidate_by_prefix_invariant:
  "pending_requests (snd (invalidate_by_prefix p s)) = pending_requests s
   \<and> (distinct (map fst (cache s)) \<longrightarrow>
        distinct (map fst (cache (snd (invalidate_by_prefix p s)))))"
  by (simp add: invalidate_by_prefix_def invalidate_loop_filter distinct_map_filter)

lemma clear_invariant:
  "pending_requests (clear s) = pending_requests s \<and> distinct (map fst (cache (clear s)))"
  by (simp add: clear_def)

section \<open>The rate limit check\<close>

text \<open>
  C6. \<open>_has_reached_rate_limit\<close> first drops every timestamp \<open>t\<close> with \<open>now - t \<ge> 60000\<close>
  from the ledger and then answers whether at least \<open>minute_request_limit\<close> timestamps are
  left; nothing else of the service changes. With a limit of 0 the answer is True on every
  call, whatever the ledger holds.
\<close>

theorem has_reached_rate_limit_spec:
  "has_reached_rate_limit now s =
     (int (length (filter (\<lambda>t. \<not> now - t \<ge> 60000) (request_timestamps s))) \<ge> minute_request_limit s,
      s\<lparr>request_timestamps := filter (\<lambda>t. \<not> now - t \<ge> 60000) (request_timestamps s)\<rparr>)
   \<and> fst (has_reached_rate_limit now (s\<lparr>minute_request_limit := 0\<rparr>)) = True"
  by (simp add: has_reached_rate_limit_def cleanup_expired_timestamps_def window_size_ms_def
      not_le)

theorem has_reached_rate_limit_spec_witness:
  "has_reached_rate_limit 70000
     \<lparr>minute_request_limit = 2, persistent_cache_enabled = False, cache = [],
      pending_requests = [], request_timestamps = [5000, 10000, 20000, 69999],
      cache_file = (None :: nat snapshot option)\<rparr>
   = (True,
      \<lparr>minute_request_limit = 2, persistent_cache_enabled = False, cache = [],
       pending_requests = [], request_timestamps = [20000, 69999], cache_file = None\<rparr>)"
  using has_reached_rate_limit_spec
    [of 70000 "\<lparr>minute_request_limit = 2, persistent_cache_enabled = False, cache = [],
      pending_requests = [], request_timestamps = [5000, 10000, 20000, 69999],
      cache_file = (None :: nat snapshot option)\<rparr>"]
  by simp

section \<open>Get-or-fetch under a reached rate limit\<close>

text \<open>
  C1. A call without \<open>force_refresh\<close>, for a key that is not pending and has no entry that
  is still alive, made while the purged ledger is at the limit and without \<open>critical\<close>:
  if the key has an entry (expired) and \<open>fallback_to_cache\<close> is set, the call returns that
  entry's data; otherwise with \<open>fail_silently\<close> it returns \<open>None\<close>; otherwise it raises the
  rate limit exception, whose message carries the computed wait time in whole seconds
  (\<open>wait_time // 1000\<close>). In all three cases the fetch function is not called: the result
  does not depend on it and the outside world is as before; the service has only had its
  ledger purged. (The pending check comes first in the code; between calls no key is
  pending, see \<open>with_cache_pending_empty\<close>.)
\<close>

theorem with_cache_rate_limited:
  assumes "\<not> force_refresh opts"
    and "\<not> dict_in key (pending_requests s)"
    and "case map_of (cache s) key of None \<Rightarrow> True
         | Some e \<Rightarrow> is_expired (t_is_expired clk) e"
    and "fst (has_reached_rate_limit (t_cleanup clk) s)"
    and "\<not> critical opts"
  shows "with_cache clk key fetch_fn opts s w =
     (case (if fallback_to_cache opts then map_of (cache s) key else None) of
        Some e \<Rightarrow> Return (data e)
      | None \<Rightarrow>
          if fail_silently opts then Return None
          else Raise (RateLimitReached
                 (length (request_timestamps (cleanup_expired_timestamps (t_cleanup clk) s)))
                 (minute_request_limit s)
                 (get_wait_time_ms (t_wait clk) (cleanup_expired_timestamps (t_cleanup clk) s)
                    div 1000)),
      cleanup_expired_timestamps (t_cleanup clk) s, w)"
proof -
  have step: "with_cache clk key fetch_fn opts s w =
        admission_step clk key fetch_fn opts (map_of (cache s) key) s w"
    using assms(1-3) by (intro with_cache_to_admission) auto
  show ?thesis
    unfolding step by (rule admission_limited [OF assms(4,5)])
qed

theorem with_cache_rate_limited_witness:
  "with_cache (clock_at 5000) ''k'' (fail_with ''never called'') default_options
     \<lparr>minute_request_limit = 2, persistent_cache_enabled = False,
      cache = [(''k'', \<lparr>data = Some (7::nat), timestamp = 0, expires_at = 100\<rparr>)],
      pending_requests = [], request_timestamps = [1000, 2000], cache_file = None\<rparr> (0::nat)
   = (Return (Some 7),
      \<lparr>minute_request_limit = 2, persistent_cache_enabled = False,
       cache = [(''k'', \<lparr>data = Some 7, timestamp = 0, expires_at = 100\<rparr>)],
       pending_requests = [], request_timestamps = [1000, 2000], cache_file = None\<rparr>, 0)
   \<and> fst (with_cache (clock_at 5000) ''z'' (fail_with ''never called'')
          (default_options\<lparr>fail_silently := True\<rparr>)
          \<lparr>minute_request_limit = 2, persistent_cache_enabled = False,
           cache = [(''k'', \<lparr>data = Some (7::nat), timestamp = 0, expires_at = 100\<rparr>)],
           pending_requests = [], request_timestamps = [1000, 2000], cache_file = None\<rparr>
          (0::nat))
       = Return None
   \<and> fst (with_cache (clock_at 5000) ''z'' (fail_with ''never called'') default_options
          \<lparr>minute_request_limit = 2, persistent_cache_enabled = False,
           cache = [(''k'', \<lparr>data = Some (7::nat), timestamp = 0, expires_at = 100\<rparr>)],
           pending_requests = [], request_timestamps = [1000, 2000], cache_file = None\<rparr>
          (0::nat))
       = Raise (RateLimitReached 2 2 56)"
  using
    with_cache_rate_limited [where opts = default_options and key = "''k''"
      and clk = "clock_at 5000" and w = "0::nat" and fetch_fn = "fail_with ''never called''"
      and s = "\<lparr>minute_request_limit = 2, persistent_cache_enabled = False,
        cache = [(''k'', \<lparr>data = Some (7::nat), timestamp = 0, expires_at = 100\<rparr>)],
        pending_requests = [], request_timestamps = [1000, 2000], cache_file = None\<rparr>"]
    with_cache_rate_limited [where opts = "default_options\<lparr>fail_silently := True\<rparr>"
      and key = "''z''"
      and clk = "clock_at 5000" and w = "0::nat" and fetch_fn = "fail_with ''never called''"
      and s = "\<lparr>minute_request_limit = 2, persistent_cache_enabled = False,
        cache = [(''k'', \<lparr>data = Some (7::nat), timestamp = 0, expires_at = 100\<rparr>)],
        pending_requests = [], request_timestamps = [1000, 2000], cache_file = None\<rparr>"]
    with_cache_rate_limited [where opts = "default_options" and key = "''z''"
      and clk = "clock_at 5000" and w = "0::nat" and fetch_fn = "fail_with ''never called''"
      and s = "\<lparr>minute_request_limit = 2, persistent_cache_enabled = False,
        cache = [(''k'', \<lparr>data = Some (7::nat), timestamp = 0, expires_at = 100\<rparr>)],
        pending_requests = [], request_timestamps = [1000, 2000], cache_file = None\<rparr>"]
  by (simp add: default_options_def clock_at_def dict_in_def is_expired_def
      has_reached_rate_limit_def cleanup_expired_timestamps_def window_size_ms_def
      get_wait_time_ms_def)

section \<open>A fetch that fails\<close>

text \<open>
  C2. A call that reaches the fetch step (it is not answered by the pending check, by a live
  entry or by the rate limit check) and whose fetch function raises \<open>err\<close>: if the key had an
  entry when the call began (expired or not, also under \<open>force_refresh\<close>) and
  \<open>fallback_to_cache\<close> is set, the call returns that entry's data and the exception is
  swallowed; otherwise the call raises \<open>err\<close> itself. Either way the request was recorded in
  the purged ledger, the pending mark is gone, and the cache and the file are as before.
  (\<open>execute_fetch\<close> of the asynchronous class has the same \<open>except\<close> block.)
\<close>

theorem with_cache_fetch_failure:
  assumes "\<not> (dict_in key (pending_requests s) \<and> \<not> force_refresh opts)"
    and "force_refresh opts \<or>
         (case map_of (cache s) key of None \<Rightarrow> True
          | Some e \<Rightarrow> is_expired (t_is_expired clk) e)"
    and "\<not> (fst (has_reached_rate_limit (t_cleanup clk) s) \<and> \<not> critical opts)"
    and "fetch_fn w = (Inl err, w')"
  shows "with_cache clk key fetch_fn opts s w =
     (case (if fallback_to_cache opts then map_of (cache s) key else None) of
        Some e \<Rightarrow> Return (data e)
      | None \<Rightarrow> Raise (FetchRaised err),
      s\<lparr>pending_requests := AList.delete key (pending_requests s),
        request_timestamps :=
          filter (\<lambda>ts. t_cleanup clk - ts < window_size_ms) (request_timestamps s)
            @ [t_record clk]\<rparr>, w')"
  using assms by (rule reaches_fetch_failed)

text \<open>
  The scenario of the specification: the entry for \<open>p\<close> was cached at 0 with a ttl of
  1000 ms; a forced refresh at 2000 whose fetch fails returns the old data. Without
  \<open>fallback_to_cache\<close> the same call raises the fetch's exception.
\<close>

theorem with_cache_fetch_failure_witness:
  "fst (with_cache (clock_at 2000) ''p'' (fail_with ''upstream down'')
          (default_options\<lparr>force_refresh := True\<rparr>)
          \<lparr>minute_request_limit = 5, persistent_cache_enabled = False,
           cache = [(''p'', CacheEntry_init 0 (Some (7::nat)) 1000)],
           pending_requests = [], request_timestamps = [0], cache_file = None\<rparr> (0::nat))
     = Return (Some 7)
   \<and> fst (with_cache (clock_at 2000) ''p'' (fail_with ''upstream down'')
          (default_options\<lparr>force_refresh := True, fallback_to_cache := False\<rparr>)
          \<lparr>minute_request_limit = 5, persistent_cache_enabled = False,
           cache = [(''p'', CacheEntry_init 0 (Some (7::nat)) 1000)],
           pending_requests = [], request_timestamps = [0], cache_file = None\<rparr> (0::nat))
     = Raise (FetchRaised ''upstream down'')"
  using
    with_cache_fetch_failure [where opts = "default_options\<lparr>force_refresh := True\<rparr>"
      and key = "''p''" and clk = "clock_at 2000" and w = "0::nat" and w' = "0::nat"
      and err = "''upstream down''" and fetch_fn = "fail_with ''upstream down''"
      and s = "\<lparr>minute_request_limit = 5, persistent_cache_enabled = False,
        cache = [(''p'', CacheEntry_init 0 (Some (7::nat)) 1000)],
        pending_requests = [], request_timestamps = [0], cache_file = None\<rparr>"]
    with_cache_fetch_failure
      [where opts = "default_options\<lparr>force_refresh := True, fallback_to_cache := False\<rparr>"
      and key = "''p''" and clk = "clock_at 2000" and w = "0::nat" and w' = "0::nat"
      and err = "''upstream down''" and fetch_fn = "fail_with ''upstream down''"
      and s = "\<lparr>minute_request_limit = 5, persistent_cache_enabled = False,
        cache = [(''p'', CacheEntry_init 0 (Some (7::nat)) 1000)],
        pending_requests = [], request_timestamps = [0], cache_file = None\<rparr>"]
  by (simp add: default_options_def clock_at_def dict_in_def fail_with_def
      has_reached_rate_limit_def cleanup_expired_timestamps_def window_size_ms_def
      CacheEntry_init_def)

text \<open>
  C7. The claim is that a call with \<open>fail_silently\<close>, no entry for the key and a fetch that
  is attempted and fails returns \<open>None\<close>. The code does not: \<open>fail_silently\<close> is read in the
  rate limit branch only ("Don't raise error if rate limit is reached"), and the
  \<open>except\<close> block of the fetch step re-raises when there is no entry to fall back to. At
  the input below all conditions of the claim hold and the call raises the fetch's exception.
\<close>

theorem with_cache_fail_silently_counterexample:
  "fail_silently (default_options\<lparr>fail_silently := True\<rparr>)
   \<and> map_of (cache (service_init 5 False None 0 (steady 0) :: nat service)) ''k'' = None
   \<and> \<not> fst (has_reached_rate_limit 0 (service_init 5 False None 0 (steady 0) :: nat service))
   \<and> fst (with_cache (clock_at 0) ''k'' (fail_with ''upstream down'')
          (default_options\<lparr>fail_silently := True\<rparr>)
          (service_init 5 False None 0 (steady 0) :: nat service) (0::nat))
       = Raise (FetchRaised ''upstream down'')
   \<and> fst (with_cache (clock_at 0) ''k'' (fail_with ''upstream down'')
          (default_options\<lparr>fail_silently := True\<rparr>)
          (service_init 5 False None 0 (steady 0) :: nat service) (0::nat))
       \<noteq> Return None"
  by (simp add: service_init_def initialize_cache_def with_cache_def admission_step_def
      fetch_step_def has_reached_rate_limit_def cleanup_expired_timestamps_def
      record_request_def clear_pending_def dict_in_def fail_with_def default_options_def
      clock_at_def Let_def)

text \<open>
  C7, as amended. A call for a key without an entry that reaches the fetch step and whose
  fetch function raises \<open>err\<close> raises \<open>err\<close> itself, whatever \<open>fail_silently\<close> is.
\<close>

theorem fetch_failure_ignores_fail_silently:
  assumes "map_of (cache s) key = None"
    and "\<not> (dict_in key (pending_requests s) \<and> \<not> force_refresh opts)"
    and "\<not> (fst (has_reached_rate_limit (t_cleanup clk) s) \<and> \<not> critical opts)"
    and "fetch_fn w = (Inl err, w')"
  shows "fst (with_cache clk key fetch_fn opts s w) = Raise (FetchRaised err)"
proof -
  have "force_refresh opts \<or>
        (case map_of (cache s) key of None \<Rightarrow> True
         | Some e \<Rightarrow> is_expired (t_is_expired clk) e)"
    using assms(1) by simp
  from reaches_fetch_failed [where fetch_fn = fetch_fn and w = w, OF assms(2) this assms(3,4)]
    assms(1) show ?thesis
    by simp
qed

theorem fetch_failure_ignores_fail_silently_witness:
  "fst (with_cache (clock_at 100) ''acct:1'' (fail_with ''HTTP 500'')
          (default_options\<lparr>fail_silently := True\<rparr>)
          \<lparr>minute_request_limit = 5, persistent_cache_enabled = False,
           cache = [(''acct:2'', CacheEntry_init 0 (Some (7::nat)) 1000)],
           pending_requests = [], request_timestamps = [0, 50], cache_file = None\<rparr> (0::nat))
     = Raise (FetchRaised ''HTTP 500'')"
  using
    fetch_failure_ignores_fail_silently
      [where opts = "default_options\<lparr>fail_silently := True\<rparr>"
      and key = "''acct:1''" and clk = "clock_at 100" and w = "0::nat" and w' = "0::nat"
      and err = "''HTTP 500''" and fetch_fn = "fail_with ''HTTP 500''"
      and s = "\<lparr>minute_request_limit = 5, persistent_cache_enabled = False,
        cache = [(''acct:2'', CacheEntry_init 0 (Some (7::nat)) 1000)],
        pending_requests = [], request_timestamps = [0, 50], cache_file = None\<rparr>"]
  by (simp add: default_options_def clock_at_def dict_in_def fail_with_def
      has_reached_rate_limit_def cleanup_expired_timestamps_def window_size_ms_def)

section \<open>A cache hit\<close>

text \<open>
  C10. A call without \<open>force_refresh\<close>, for a key that is not pending and whose entry is not
  expired, returns that entry's data and changes nothing: the service afterwards is the
  service before (no timestamp recorded, cache and pending table untouched, ledger not
  purged, file not written), and the fetch function is not called. (The asynchronous class
  makes the same two checks in the same order.)
\<close>

theorem with_cache_hit_unchanged:
  assumes "\<not> force_refresh opts"
    and "\<not> dict_in key (pending_requests s)"
    and "map_of (cache s) key = Some e"
    and "\<not> is_expired (t_is_expired clk) e"
  shows "with_cache clk key fetch_fn opts s w = (Return (data e), s, w)"
  using assms by (simp add: with_cache_def)

theorem with_cache_hit_unchanged_witness:
  "with_cache (clock_at 70000) ''k'' (fail_with ''never called'') default_options
     \<lparr>minute_request_limit = 1, persistent_cache_enabled = True,
      cache = [(''k'', \<lparr>data = Some (7::nat), timestamp = 0, expires_at = 70000\<rparr>)],
      pending_requests = [], request_timestamps = [5, 6], cache_file = None\<rparr> (0::nat)
   = (Return (Some 7),
      \<lparr>minute_request_limit = 1, persistent_cache_enabled = True,
       cache = [(''k'', \<lparr>data = Some 7, timestamp = 0, expires_at = 70000\<rparr>)],
       pending_requests = [], request_timestamps = [5, 6], cache_file = None\<rparr>, 0)"
  using
    with_cache_hit_unchanged [where opts = default_options and key = "''k''"
      and clk = "clock_at 70000" and w = "0::nat" and fetch_fn = "fail_with ''never called''"
      and e = "\<lparr>data = Some (7::nat), timestamp = 0, expires_at = 70000\<rparr>"
      and s = "\<lparr>minute_request_limit = 1, persistent_cache_enabled = True,
        cache = [(''k'', \<lparr>data = Some (7::nat), timestamp = 0, expires_at = 70000\<rparr>)],
        pending_requests = [], request_timestamps = [5, 6], cache_file = None\<rparr>"]
  by (simp add: default_options_def clock_at_def dict_in_def is_expired_def)

section \<open>The wait time\<close>

text \<open>
  C4. \<open>_get_wait_time_ms\<close> returns 0 when the ledger is empty and otherwise
  \<open>max(0, (m + 60000) - now)\<close> for the least timestamp \<open>m\<close> of the ledger. In the scenario of
  the specification (limit 5; five fetches for distinct keys at 0, 1, 2, 3, 4 ms, all
  successful and recorded; a sixth call at 10 ms for a new key, with default options) the
  sixth call raises the rate limit exception, the wait time computed is 59990 ms, and the
  message reports it as 59 whole seconds.
\<close>

theorem get_wait_time_ms_spec:
  "get_wait_time_ms now s =
     (if request_timestamps s = [] then 0
      else max 0 ((Min (set (request_timestamps s)) + 60000) - now))
   \<and> (let s0 = service_init 5 True None 0 (steady 0);
          (r1, s1, w1) =
            with_cache (clock_at 0) ''k1'' (succeed_with (Some (1::nat))) default_options s0
              (0::nat);
          (r2, s2, w2) =
            with_cache (clock_at 1) ''k2'' (succeed_with (Some 2)) default_options s1 w1;
          (r3, s3, w3) =
            with_cache (clock_at 2) ''k3'' (succeed_with (Some 3)) default_options s2 w2;
          (r4, s4, w4) =
            with_cache (clock_at 3) ''k4'' (succeed_with (Some 4)) default_options s3 w3;
          (r5, s5, w5) =
            with_cache (clock_at 4) ''k5'' (succeed_with (Some 5)) default_options s4 w4;
          (r6, s6, w6) =
            with_cache (clock_at 10) ''k7'' (fail_with ''never called'') default_options s5 w5
      in [r1, r2, r3, r4, r5] =
           [Return (Some 1), Return (Some 2), Return (Some 3), Return (Some 4), Return (Some 5)]
         \<and> request_timestamps s5 = [0, 1, 2, 3, 4]
         \<and> map_of (cache s5) ''k7'' = None
         \<and> get_wait_time_ms 10 s6 = 59990
         \<and> r6 = Raise (RateLimitReached 5 5 59))"
proof -
  have "get_wait_time_ms now s =
     (if request_timestamps s = [] then 0
      else max 0 ((Min (set (request_timestamps s)) + 60000) - now))"
    by (simp add: get_wait_time_ms_def Let_def hd_sort_Min window_size_ms_def)
  moreover have "(let s0 = service_init 5 True None 0 (steady 0);
          (r1, s1, w1) =
            with_cache (clock_at 0) ''k1'' (succeed_with (Some (1::nat))) default_options s0
              (0::nat);
          (r2, s2, w2) =
            with_cache (clock_at 1) ''k2'' (succeed_with (Some 2)) default_options s1 w1;
          (r3, s3, w3) =
            with_cache (clock_at 2) ''k3'' (succeed_with (Some 3)) default_options s2 w2;
          (r4, s4, w4) =
            with_cache (clock_at 3) ''k4'' (succeed_with (Some 4)) default_options s3 w3;
          (r5, s5, w5) =
            with_cache (clock_at 4) ''k5'' (succeed_with (Some 5)) default_options s4 w4;
          (r6, s6, w6) =
            with_cache (clock_at 10) ''k7'' (fail_with ''never called'') default_options s5 w5
      in [r1, r2, r3, r4, r5] =
           [Return (Some 1), Return (Some 2), Return (Some 3), Return (Some 4), Return (Some 5)]
         \<and> request_timestamps s5 = [0, 1, 2, 3, 4]
         \<and> map_of (cache s5) ''k7'' = None
         \<and> get_wait_time_ms 10 s6 = 59990
         \<and> r6 = (Raise (RateLimitReached 5 5 59) :: (nat, string) outcome))"
    by (simp add: service_init_def initialize_cache_def with_cache_def admission_step_def
        fetch_step_def has_reached_rate_limit_def cleanup_expired_timestamps_def
        get_wait_time_ms_def record_request_def persist_cache_def clear_pending_def
        dict_in_def succeed_with_def fail_with_def default_options_def clock_at_def
        CacheEntry_init_def window_size_ms_def to_dict_def Let_def)
  ultimately show ?thesis
    by (rule conjI)
qed

theorem get_wait_time_ms_spec_witness:
  "get_wait_time_ms 61000
     \<lparr>minute_request_limit = 5, persistent_cache_enabled = False, cache = [],
      pending_requests = [], request_timestamps = [3000, 1500, 4000],
      cache_file = (None :: nat snapshot option)\<rparr> = 500
   \<and> get_wait_time_ms 61000
     \<lparr>minute_request_limit = 5, persistent_cache_enabled = False, cache = [],
      pending_requests = [], request_timestamps = [],
      cache_file = (None :: nat snapshot option)\<rparr> = 0"
  using
    get_wait_time_ms_spec [THEN conjunct1, of 61000 "\<lparr>minute_request_limit = 5,
      persistent_cache_enabled = False, cache = [],
      pending_requests = [], request_timestamps = [3000, 1500, 4000],
      cache_file = (None :: nat snapshot option)\<rparr>"]
    get_wait_time_ms_spec [THEN conjunct1, of 61000 "\<lparr>minute_request_limit = 5,
      persistent_cache_enabled = False, cache = [],
      pending_requests = [], request_timestamps = [],
      cache_file = (None :: nat snapshot option)\<rparr>"]
  by simp

section \<open>Writing and reading the snapshot\<close>

text \<open>
  C3. With persistence enabled, writing the snapshot of a service (\<open>_persist_cache\<close>) and
  constructing a service from the file at the same time \<open>now\<close> (\<open>__init__\<close>, which runs
  \<open>_initialize_cache\<close> on an empty cache and ledger) gives a cache holding exactly the
  entries whose \<open>expires_at\<close> is not before \<open>now\<close>, each unchanged and in the same order, and
  a ledger holding exactly the timestamps \<open>t\<close> with \<open>now - t < 60000\<close>; expired entries and
  timestamps outside the window are dropped. The cache is a dict, so its keys are distinct.
\<close>

theorem persist_then_initialize:
  assumes "persistent_cache_enabled s"
    and "distinct (map fst (cache s))"
  shows "service_init (minute_request_limit s) (persistent_cache_enabled s)
           (cache_file (persist_cache now s)) now (steady now)
         = \<lparr>minute_request_limit = minute_request_limit s,
            persistent_cache_enabled = True,
            cache = filter (\<lambda>(key, entry). \<not> expires_at entry < now) (cache s),
            pending_requests = [],
            request_timestamps = filter (\<lambda>t. now - t < 60000) (request_timestamps s),
            cache_file = cache_file (persist_cache now s)\<rparr>"
  using assms restore_entries_steady [of "[]" "cache s" now 0]
  by (simp add: service_init_def initialize_cache_def persist_cache_def window_size_ms_def
      is_expired_def not_less)

theorem persist_then_initialize_witness:
  "cache (service_init 5 True
      (cache_file (persist_cache 70000
         \<lparr>minute_request_limit = 5, persistent_cache_enabled = True,
          cache = [(''a'', \<lparr>data = Some (1::nat), timestamp = 0, expires_at = 69999\<rparr>),
                   (''b'', \<lparr>data = None, timestamp = 100, expires_at = 70000\<rparr>),
                   (''c'', \<lparr>data = Some 3, timestamp = 200, expires_at = 90000\<rparr>)],
          pending_requests = [], request_timestamps = [9999, 10000, 10001, 69000],
          cache_file = None\<rparr>))
      70000 (steady 70000))
     = [(''b'', \<lparr>data = None, timestamp = 100, expires_at = 70000\<rparr>),
        (''c'', \<lparr>data = Some 3, timestamp = 200, expires_at = 90000\<rparr>)]
   \<and> request_timestamps (service_init 5 True
      (cache_file (persist_cache 70000
         \<lparr>minute_request_limit = 5, persistent_cache_enabled = True,
          cache = [(''a'', \<lparr>data = Some (1::nat), timestamp = 0, expires_at = 69999\<rparr>),
                   (''b'', \<lparr>data = None, timestamp = 100, expires_at = 70000\<rparr>),
                   (''c'', \<lparr>data = Some 3, timestamp = 200, expires_at = 90000\<rparr>)],
          pending_requests = [], request_timestamps = [9999, 10000, 10001, 69000],
          cache_file = None\<rparr>))
      70000 (steady 70000))
     = [10001, 69000]"
  using
    persist_then_initialize [where now = 70000
      and s = "\<lparr>minute_request_limit = 5, persistent_cache_enabled = True,
          cache = [(''a'', \<lparr>data = Some (1::nat), timestamp = 0, expires_at = 69999\<rparr>),
                   (''b'', \<lparr>data = None, timestamp = 100, expires_at = 70000\<rparr>),
                   (''c'', \<lparr>data = Some 3, timestamp = 200, expires_at = 90000\<rparr>)],
          pending_requests = [], request_timestamps = [9999, 10000, 10001, 69000],
          cache_file = None\<rparr>"]
  by simp

section \<open>What invalidation returns and removes\<close>

text \<open>
  C8. The claim is that \<open>invalidate\<close> returns true exactly when the key had an entry. The
  method returns \<open>None\<close> in every case (it is declared \<open>-> None\<close>): below the key has an
  entry and the returned object is \<open>None\<close>, not \<open>True\<close>.
\<close>

theorem invalidate_returns_none_counterexample:
  "dict_in ''a''
     (cache \<lparr>minute_request_limit = 5, persistent_cache_enabled = False,
             cache = [(''a'', \<lparr>data = Some (1::nat), timestamp = 0, expires_at = 10\<rparr>)],
             pending_requests = [], request_timestamps = [], cache_file = None\<rparr>)
   \<and> fst (invalidate ''a''
        \<lparr>minute_request_limit = 5, persistent_cache_enabled = False,
         cache = [(''a'', \<lparr>data = Some (1::nat), timestamp = 0, expires_at = 10\<rparr>)],
         pending_requests = [], request_timestamps = [], cache_file = None\<rparr>) = None
   \<and> fst (invalidate ''a''
        \<lparr>minute_request_limit = 5, persistent_cache_enabled = False,
         cache = [(''a'', \<lparr>data = Some (1::nat), timestamp = 0, expires_at = 10\<rparr>)],
         pending_requests = [], request_timestamps = [], cache_file = None\<rparr>) \<noteq> Some True"
  by (simp add: invalidate_def dict_in_def)

text \<open>
  C8, as amended. \<open>invalidate\<close> returns \<open>None\<close> whether or not the key had an entry;
  afterwards the key has no entry, every other key has the entry it had, and nothing else
  of the service has changed.
\<close>

theorem invalidate_spec:
  "fst (invalidate key s) = None
   \<and> \<not> dict_in key (cache (snd (invalidate key s)))
   \<and> map_of (cache (snd (invalidate key s))) k = (if k = key then None else map_of (cache s) k)
   \<and> snd (invalidate key s) = s\<lparr>cache := AList.delete key (cache s)\<rparr>"
  by (auto simp add: invalidate_def dict_in_def AList.delete_conv' AList.delete_notin_dom
      map_of_eq_None_iff)

theorem invalidate_spec_witness:
  "invalidate ''a''
     \<lparr>minute_request_limit = 5, persistent_cache_enabled = False,
      cache = [(''a'', \<lparr>data = Some (1::nat), timestamp = 0, expires_at = 10\<rparr>),
               (''b'', \<lparr>data = Some 2, timestamp = 0, expires_at = 10\<rparr>)],
      pending_requests = [], request_timestamps = [], cache_file = None\<rparr>
   = (None,
      \<lparr>minute_request_limit = 5, persistent_cache_enabled = False,
       cache = [(''b'', \<lparr>data = Some 2, timestamp = 0, expires_at = 10\<rparr>)],
       pending_requests = [], request_timestamps = [], cache_file = None\<rparr>)"
  using
    invalidate_spec [where key = "''a''" and k = "''b''"
      and s = "\<lparr>minute_request_limit = 5, persistent_cache_enabled = False,
        cache = [(''a'', \<lparr>data = Some (1::nat), timestamp = 0, expires_at = 10\<rparr>),
                 (''b'', \<lparr>data = Some 2, timestamp = 0, expires_at = 10\<rparr>)],
        pending_requests = [], request_timestamps = [], cache_file = None\<rparr>"]
  by (simp add: prod_eq_iff)

text \<open>
  C9. \<open>invalidate_by_prefix\<close> removes exactly the keys that start with the prefix: afterwards
  a key with the prefix has no entry and every other key has the entry it had (the
  remaining entries keep their order), nothing else of the service changes, and the number
  returned is the number of keys of the cache that start with the prefix.
\<close>

theorem invalidate_by_prefix_spec:
  assumes "distinct (map fst (cache s))"
  shows "invalidate_by_prefix p s =
           (card {k \<in> dom (map_of (cache s)). prefix p k},
            s\<lparr>cache := filter (\<lambda>(key, entry). \<not> prefix p key) (cache s)\<rparr>)
         \<and> map_of (cache (snd (invalidate_by_prefix p s))) k =
             (if prefix p k then None else map_of (cache s) k)"
proof -
  have keys: "{k \<in> dom (map_of (cache s)). prefix p k} =
              set (filter (prefix p) (map fst (cache s)))"
    by (auto simp add: dom_map_of_conv_image_fst)
  have "distinct (filter (prefix p) (map fst (cache s)))"
    using assms by (rule distinct_filter)
  then have "card (set (filter (prefix p) (map fst (cache s)))) =
             length (filter (prefix p) (map fst (cache s)))"
    by (rule distinct_card)
  then have "card {k \<in> dom (map_of (cache s)). prefix p k} =
             length (filter (prefix p) (map fst (cache s)))"
    unfolding keys .
  moreover have
    "filter (\<lambda>(key, entry). \<not> (key \<in> set (map fst (cache s)) \<and> prefix p key)) (cache s)
       = filter (\<lambda>(key, entry). \<not> prefix p key) (cache s)"
    by (rule filter_cong) (auto simp add: rev_image_eqI)
  ultimately show ?thesis
    by (simp add: invalidate_by_prefix_def invalidate_loop_filter map_of_filter_keys)
qed

theorem invalidate_by_prefix_spec_witness:
  "invalidate_by_prefix ''acct:''
     \<lparr>minute_request_limit = 5, persistent_cache_enabled = False,
      cache = [(''acct:1'', \<lparr>data = Some (1::nat), timestamp = 0, expires_at = 10\<rparr>),
               (''price'', \<lparr>data = Some 2, timestamp = 0, expires_at = 10\<rparr>),
               (''acct:'', \<lparr>data = None, timestamp = 0, expires_at = 10\<rparr>),
               (''acc'', \<lparr>data = Some 4, timestamp = 0, expires_at = 10\<rparr>)],
      pending_requests = [], request_timestamps = [7], cache_file = None\<rparr>
   = (2,
      \<lparr>minute_request_limit = 5, persistent_cache_enabled = False,
       cache = [(''price'', \<lparr>data = Some 2, timestamp = 0, expires_at = 10\<rparr>),
                (''acc'', \<lparr>data = Some 4, timestamp = 0, expires_at = 10\<rparr>)],
       pending_requests = [], request_timestamps = [7], cache_file = None\<rparr>)"
proof -
  have keys: "{k \<in> dom (map_of
        [(''acct:1'', \<lparr>data = Some (1::nat), timestamp = 0, expires_at = 10\<rparr>),
         (''price'', \<lparr>data = Some 2, timestamp = 0, expires_at = 10\<rparr>),
         (''acct:'', \<lparr>data = None, timestamp = 0, expires_at = 10\<rparr>),
         (''acc'', \<lparr>data = Some 4, timestamp = 0, expires_at = 10\<rparr>)]).
      prefix ''acct:'' k} = {''acct:1'', ''acct:''}"
    by (auto simp add: dom_map_of_conv_image_fst)
  have two: "card {''acct:1'', ''acct:''} = 2"
    by simp
  show ?thesis
    using
      invalidate_by_prefix_spec [where p = "''acct:''" and k = "''price''"
        and s = "\<lparr>minute_request_limit = 5, persistent_cache_enabled = False,
          cache = [(''acct:1'', \<lparr>data = Some (1::nat), timestamp = 0, expires_at = 10\<rparr>),
                   (''price'', \<lparr>data = Some 2, timestamp = 0, expires_at = 10\<rparr>),
                   (''acct:'', \<lparr>data = None, timestamp = 0, expires_at = 10\<rparr>),
                   (''acc'', \<lparr>data = Some 4, timestamp = 0, expires_at = 10\<rparr>)],
          pending_requests = [], request_timestamps = [7], cache_file = None\<rparr>"]
    by (simp only: service.simps keys two) simp
qed

end
